theory Spec2Isabelle
  imports Complex_Main "HOL-Library.AList"
begin

section \<open>JavaScript values\<close>

text \<open>
  The values that travel through the store and over the sockets are JSON-shaped: action
  payloads, parsed messages, profiles. A finite number is read as a real; \<open>NaN\<close> and the
  two infinities are values of their own. An object is its list of own enumerable
  properties in definition order. A property list is read like an object literal: the last
  binding of a key is the property's value.
\<close>

datatype non_finite = NaN | PosInfinity | NegInfinity

datatype jsval =
    JUndefined
  | JNull
  | JBool bool
  | JNum real
  | JNonFinite non_finite
  | JStr string
  | JArr "jsval list"
  | JObj "(string \<times> jsval) list"

datatype js_error = TypeError | SyntaxError

definition obj_get :: "(string \<times> jsval) list \<Rightarrow> string \<Rightarrow> jsval option" where
  "obj_get kvs k = map_of (rev kvs) k"

function decimal :: "nat \<Rightarrow> string" where
  "decimal n =
     (if n < 10 then [''0123456789'' ! n]
      else decimal (n div 10) @ [''0123456789'' ! (n mod 10)])"
  by pat_completeness auto
termination
  by (relation "measure id") auto

text \<open>
  The own enumerable string-keyed properties that an object spread \<open>{...v}\<close> copies:
  nothing for \<open>undefined\<close>, \<open>null\<close>, booleans and numbers, the index keys for an array or
  a string, the properties of an object.
\<close>

fun own_props :: "jsval \<Rightarrow> (string \<times> jsval) list" where
  "own_props (JObj kvs) = kvs"
| "own_props (JArr xs) = zip (map decimal [0..<length xs]) xs"
| "own_props (JStr t) = zip (map decimal [0..<length t]) (map (\<lambda>c. JStr [c]) t)"
| "own_props v = []"

text \<open>
  \<open>spread_into acc ps\<close> defines the properties \<open>ps\<close> one after the other on the object
  \<open>acc\<close> under construction: a key already there keeps its place and takes the new value,
  a new key goes to the end. (JavaScript enumerates integer-like keys before the others;
  the order of enumeration matters to none of the operations below.)
\<close>

definition spread_into :: "(string \<times> jsval) list \<Rightarrow> (string \<times> jsval) list \<Rightarrow> (string \<times> jsval) list" where
  "spread_into acc ps = fold (\<lambda>(k, v). AList.update k v) ps acc"

text \<open>The object literal \<open>{...a, ...b}\<close>.\<close>

definition spread2 :: "jsval \<Rightarrow> jsval \<Rightarrow> (string \<times> jsval) list" where
  "spread2 a b = spread_into (spread_into [] (own_props a)) (own_props b)"

text \<open>
  The property read \<open>v.k\<close>: a TypeError on \<open>undefined\<close> and \<open>null\<close>, the own property
  where there is one, the \<open>length\<close> of an array or a string, and \<open>undefined\<close> otherwise
  (methods inherited from a prototype are not data and are left out).
\<close>

fun get_prop :: "jsval \<Rightarrow> string \<Rightarrow> js_error + jsval" where
  "get_prop JUndefined k = Inl TypeError"
| "get_prop JNull k = Inl TypeError"
| "get_prop (JArr xs) k =
     (case obj_get (own_props (JArr xs)) k of
        Some v \<Rightarrow> Inr v
      | None \<Rightarrow> if k = ''length'' then Inr (JNum (real (length xs))) else Inr JUndefined)"
| "get_prop (JStr t) k =
     (case obj_get (own_props (JStr t)) k of
        Some v \<Rightarrow> Inr v
      | None \<Rightarrow> if k = ''length'' then Inr (JNum (real (length t))) else Inr JUndefined)"
| "get_prop v k =
     (case obj_get (own_props v) k of Some x \<Rightarrow> Inr x | None \<Rightarrow> Inr JUndefined)"

section \<open>The audio store\<close>

text \<open>
  \<open>initialState\<close> and \<open>audioReducer\<close> of the audio context. A field that an action
  overwrites with its payload holds whatever value the payload is; \<open>userPreferences\<close> and
  \<open>realTimeData\<close> are always built by an object literal, so they are property lists.
\<close>

record audio_state =
  isConnected :: jsval
  isAnalyzing :: jsval
  isProcessing :: jsval
  audioData :: jsval
  analysisResults :: jsval
  eqProfile :: jsval
  soundstageProfile :: jsval
  userPreferences :: "(string \<times> jsval) list"
  frequencyBands :: jsval
  eqGains :: jsval
  realTimeData :: "(string \<times> jsval) list"

definition initialState :: audio_state where
  "initialState = \<lparr>
     isConnected = JBool False,
     isAnalyzing = JBool False,
     isProcessing = JBool False,
     audioData = JNull,
     analysisResults = JNull,
     eqProfile = JNull,
     soundstageProfile = JNull,
     userPreferences = [
       (''bass_preference'', JNum 0),
       (''treble_preference'', JNum 0),
       (''vocal_clarity'', JNum 0),
       (''soundstage_width'', JNum (1/2)),
       (''height_preference'', JNum (1/2)),
       (''depth_preference'', JNum (1/2)),
       (''music_genre'', JStr ''general''),
       (''listening_environment'', JStr ''car''),
       (''speaker_count'', JNum 2),
       (''subwoofer_present'', JBool False),
       (''amplifier_power'', JNum 50),
       (''cabin_size'', JStr ''medium'')],
     frequencyBands = JArr (map JNum [
       20, 25, 63/2, 40, 50, 63, 80, 100, 125, 160, 200, 250, 315, 400, 500,
       630, 800, 1000, 1250, 1600, 2000, 2500, 3150, 4000, 5000, 6300, 8000,
       10000, 12500, 16000, 20000]),
     eqGains = JArr (replicate 31 (JNum 0)),
     realTimeData = [
       (''frequencyResponse'', JArr []),
       (''stereoWidth'', JNum (1/2)),
       (''centerImageStrength'', JNum (1/2)),
       (''depthPerception'', JNum (1/2)),
       (''heightPerception'', JNum (1/2)),
       (''noiseFloor'', JNum (-60)),
       (''dynamicRange'', JNum 0),
       (''thd'', JNum 0),
       (''imd'', JNum 0)]
   \<rparr>"

record action =
  atype :: string
  payload :: jsval

definition audioReducer :: "audio_state \<Rightarrow> action \<Rightarrow> audio_state" where
  "audioReducer state act =
     (if atype act = ''SET_CONNECTION_STATUS'' then state\<lparr>isConnected := payload act\<rparr>
      else if atype act = ''SET_ANALYZING'' then state\<lparr>isAnalyzing := payload act\<rparr>
      else if atype act = ''SET_PROCESSING'' then state\<lparr>isProcessing := payload act\<rparr>
      else if atype act = ''SET_AUDIO_DATA'' then state\<lparr>audioData := payload act\<rparr>
      else if atype act = ''SET_ANALYSIS_RESULTS'' then state\<lparr>analysisResults := payload act\<rparr>
      else if atype act = ''SET_EQ_PROFILE'' then state\<lparr>eqProfile := payload act\<rparr>
      else if atype act = ''SET_SOUNDSTAGE_PROFILE'' then state\<lparr>soundstageProfile := payload act\<rparr>
      else if atype act = ''UPDATE_USER_PREFERENCES'' then
        state\<lparr>userPreferences := spread2 (JObj (userPreferences state)) (payload act)\<rparr>
      else if atype act = ''UPDATE_EQ_GAINS'' then state\<lparr>eqGains := payload act\<rparr>
      else if atype act = ''UPDATE_REAL_TIME_DATA'' then
        state\<lparr>realTimeData := spread2 (JObj (realTimeData state)) (payload act)\<rparr>
      else if atype act = ''RESET_AUDIO_STATE'' then
        state\<lparr>audioData := JNull, analysisResults := JNull,
              isAnalyzing := JBool False, isProcessing := JBool False\<rparr>
      else state)"

section \<open>Message handling of the audio context\<close>

text \<open>
  What the handlers do besides changing the store is kept in the state as well: the
  toasts shown and the console lines written (the label of each line; the values printed
  after it are left out).
\<close>

datatype toast = ToastSuccess jsval | ToastError jsval

datatype log_entry = ConsoleLog string | ConsoleWarn string | ConsoleError string

record audio_ctx =
  store :: audio_state
  toasts :: "toast list"
  console :: "log_entry list"

text \<open>
  A handler either returns or throws; the state it has built up to the throw stays.
\<close>

datatype 'w outcome = Returned 'w | Threw js_error 'w

fun state_of :: "'w outcome \<Rightarrow> 'w" where
  "state_of (Returned w) = w"
| "state_of (Threw e w) = w"

definition dispatch :: "action \<Rightarrow> audio_ctx \<Rightarrow> audio_ctx" where
  "dispatch act w = w\<lparr>store := audioReducer (store w) act\<rparr>"

definition handleWebSocketMessage :: "jsval \<Rightarrow> audio_ctx \<Rightarrow> audio_ctx outcome" where
  "handleWebSocketMessage data w =
     (case get_prop data ''type'' of
        Inl e \<Rightarrow> Threw e w
      | Inr t \<Rightarrow>
          if t = JStr ''analysis_result'' then
            (case get_prop data ''data'' of
               Inl e \<Rightarrow> Threw e w
             | Inr d \<Rightarrow>
                 let w1 = dispatch \<lparr>atype = ''SET_ANALYSIS_RESULTS'', payload = d\<rparr> w in
                 (case get_prop d ''acoustic_profile'' of
                    Inl e \<Rightarrow> Threw e w1
                  | Inr ap \<Rightarrow>
                      Returned (dispatch \<lparr>atype = ''UPDATE_REAL_TIME_DATA'', payload = ap\<rparr> w1)))
          else if t = JStr ''processed_audio'' then Returned w
          else if t = JStr ''optimized_audio'' then Returned w
          else if t = JStr ''error'' then
            (case get_prop data ''message'' of
               Inl e \<Rightarrow> Threw e w
             | Inr m \<Rightarrow> Returned (w\<lparr>toasts := toasts w @ [ToastError m]\<rparr>))
          else Returned (w\<lparr>console := console w @ [ConsoleLog ''Unknown WebSocket message type:'']\<rparr>))"

text \<open>
  \<open>ws.onmessage\<close> of the audio context. The text of the frame is given by what
  \<open>JSON.parse\<close> makes of it: a SyntaxError or the parsed value. Whatever is thrown inside
  the \<open>try\<close> is caught and logged.
\<close>

definition audioContext_onmessage :: "js_error + jsval \<Rightarrow> audio_ctx \<Rightarrow> audio_ctx" where
  "audioContext_onmessage parsed w =
     (case parsed of
        Inl e \<Rightarrow> w\<lparr>console := console w @ [ConsoleError ''Error parsing WebSocket message:'']\<rparr>
      | Inr data \<Rightarrow>
          (case handleWebSocketMessage data w of
             Returned w' \<Rightarrow> w'
           | Threw e w' \<Rightarrow>
               w'\<lparr>console := console w' @ [ConsoleError ''Error parsing WebSocket message:'']\<rparr>))"

definition audio_context_tags :: "string list" where
  "audio_context_tags = [''analysis_result'', ''processed_audio'', ''optimized_audio'', ''error'']"

section \<open>The WebSocket provider\<close>

text \<open>
  The provider holds two socket references, one reconnect timer reference and one attempt
  counter. A socket object is reachable from at most one reference, so the reference is
  modelled as holding the socket itself; the browser changes its \<open>readyState\<close>.
  The browser's side is part of the state: the timers pending, the delay of every
  \<open>setTimeout\<close> call made so far, and the frames sent on each socket. The field
  \<open>isConnected_ws\<close> is the provider's \<open>isConnected\<close>, which the control socket sets.
\<close>

datatype ready_state = CONNECTING | OPEN | CLOSING | CLOSED

record socket =
  sock_id :: nat
  url :: string
  readyState :: ready_state

text \<open>
  A frame sent with \<open>ws.send\<close>: a plain string, or the text \<open>JSON.stringify\<close> produces,
  which is represented by the JSON document it denotes.
\<close>

datatype wire = Text string | Json jsval

record ws_provider =
  isConnected_ws :: bool
  connectionStatus :: string
  activeConnections :: jsval
  lastMessage :: jsval
  audioWsRef :: "socket option"
  controlWsRef :: "socket option"
  reconnectTimeoutRef :: "nat option"
  reconnectAttempts :: nat
  nextSocket :: nat
  nextTimer :: nat
  pendingTimers :: "(nat \<times> nat) list"
  setTimeoutCalls :: "nat list"
  sentAudio :: "wire list"
  sentControl :: "wire list"
  ws_toasts :: "toast list"
  ws_console :: "log_entry list"

definition maxReconnectAttempts :: nat where
  "maxReconnectAttempts = 5"

definition ws_initial :: ws_provider where
  "ws_initial = \<lparr>
     isConnected_ws = False,
     connectionStatus = ''disconnected'',
     activeConnections = JNum 0,
     lastMessage = JNull,
     audioWsRef = None,
     controlWsRef = None,
     reconnectTimeoutRef = None,
     reconnectAttempts = 0,
     nextSocket = 0,
     nextTimer = 1,
     pendingTimers = [],
     setTimeoutCalls = [],
     sentAudio = [],
     sentControl = [],
     ws_toasts = [],
     ws_console = []
   \<rparr>"

definition ws_log :: "log_entry \<Rightarrow> ws_provider \<Rightarrow> ws_provider" where
  "ws_log l s = s\<lparr>ws_console := ws_console s @ [l]\<rparr>"

definition ws_toast :: "toast \<Rightarrow> ws_provider \<Rightarrow> ws_provider" where
  "ws_toast t s = s\<lparr>ws_toasts := ws_toasts s @ [t]\<rparr>"

text \<open>
  \<open>setTimeout\<close> hands out a fresh non-zero timer id and \<open>clearTimeout\<close> drops the timer
  from the pending ones (nothing happens for an id that has fired already).
\<close>

definition setTimeout :: "nat \<Rightarrow> ws_provider \<Rightarrow> nat \<times> ws_provider" where
  "setTimeout delay s =
     (nextTimer s,
      s\<lparr>nextTimer := nextTimer s + 1,
        pendingTimers := pendingTimers s @ [(nextTimer s, delay)],
        setTimeoutCalls := setTimeoutCalls s @ [delay]\<rparr>)"

definition clearTimeout :: "nat \<Rightarrow> ws_provider \<Rightarrow> ws_provider" where
  "clearTimeout t s = s\<lparr>pendingTimers := filter (\<lambda>(i, d). i \<noteq> t) (pendingTimers s)\<rparr>"

text \<open>
  \<open>new WebSocket(url)\<close> may throw; \<open>ok\<close> says whether it returns. Both connect functions
  catch the exception, log it and show a toast.
\<close>

definition connectAudioWebSocket :: "bool \<Rightarrow> ws_provider \<Rightarrow> ws_provider" where
  "connectAudioWebSocket ok s =
     (if ok then
        s\<lparr>nextSocket := nextSocket s + 1,
          audioWsRef := Some \<lparr>sock_id = nextSocket s,
                              url = ''ws://localhost:8000/ws/audio-stream'',
                              readyState = CONNECTING\<rparr>\<rparr>
      else
        ws_toast (ToastError (JStr ''Failed to connect to audio server''))
          (ws_log (ConsoleError ''Error connecting audio WebSocket:'') s))"

definition connectControlWebSocket :: "bool \<Rightarrow> ws_provider \<Rightarrow> ws_provider" where
  "connectControlWebSocket ok s =
     (if ok then
        s\<lparr>nextSocket := nextSocket s + 1,
          controlWsRef := Some \<lparr>sock_id = nextSocket s,
                                url = ''ws://localhost:8000/ws/control'',
                                readyState = CONNECTING\<rparr>\<rparr>
      else
        ws_toast (ToastError (JStr ''Failed to connect to control server''))
          (ws_log (ConsoleError ''Error connecting control WebSocket:'') s))"

text \<open>
  \<open>Math.min (1000 * Math.pow (2, attempts), 30000)\<close>; the doubles involved are whole
  numbers, computed exactly. The test \<open>if (reconnectTimeoutRef.current)\<close> holds for a
  timer id other than 0.
\<close>

definition reconnectDelay :: "nat \<Rightarrow> nat" where
  "reconnectDelay attempts = min (1000 * 2 ^ attempts) 30000"

definition scheduleReconnect :: "ws_provider \<Rightarrow> ws_provider" where
  "scheduleReconnect s =
     (let s1 = (case reconnectTimeoutRef s of
                  Some t \<Rightarrow> if t \<noteq> 0 then clearTimeout t s else s
                | None \<Rightarrow> s);
          delay = reconnectDelay (reconnectAttempts s1);
          s2 = s1\<lparr>reconnectAttempts := reconnectAttempts s1 + 1\<rparr>;
          (t, s3) = setTimeout delay s2
      in s3\<lparr>reconnectTimeoutRef := Some t\<rparr>)"

text \<open>The callback that \<open>scheduleReconnect\<close> hands to \<open>setTimeout\<close>.\<close>

definition reconnectCallback :: "bool \<Rightarrow> ws_provider \<Rightarrow> ws_provider" where
  "reconnectCallback ok s =
     connectAudioWebSocket ok (ws_log (ConsoleLog ''Attempting to reconnect'') s)"

subsection \<open>Socket event handlers\<close>

definition audioWs_onopen :: "ws_provider \<Rightarrow> ws_provider" where
  "audioWs_onopen s =
     (ws_log (ConsoleLog ''Audio WebSocket connected'') s)
       \<lparr>connectionStatus := ''connected'', reconnectAttempts := 0\<rparr>"

definition audioWs_onclose :: "ws_provider \<Rightarrow> ws_provider" where
  "audioWs_onclose s =
     (let s1 = (ws_log (ConsoleLog ''Audio WebSocket disconnected:'') s)
                 \<lparr>connectionStatus := ''disconnected'', audioWsRef := None\<rparr>
      in if reconnectAttempts s1 < maxReconnectAttempts then scheduleReconnect s1
         else ws_toast (ToastError (JStr ''Failed to reconnect to audio server'')) s1)"

definition audioWs_onerror :: "ws_provider \<Rightarrow> ws_provider" where
  "audioWs_onerror s =
     ws_toast (ToastError (JStr ''Audio WebSocket connection error''))
       (ws_log (ConsoleError ''Audio WebSocket error:'') s)"

definition controlWs_onopen :: "ws_provider \<Rightarrow> ws_provider" where
  "controlWs_onopen s =
     (ws_log (ConsoleLog ''Control WebSocket connected'') s)\<lparr>isConnected_ws := True\<rparr>"

definition controlWs_onclose :: "ws_provider \<Rightarrow> ws_provider" where
  "controlWs_onclose s =
     (ws_log (ConsoleLog ''Control WebSocket disconnected:'') s)
       \<lparr>isConnected_ws := False, controlWsRef := None\<rparr>"

definition controlWs_onerror :: "ws_provider \<Rightarrow> ws_provider" where
  "controlWs_onerror s =
     ws_toast (ToastError (JStr ''Control WebSocket connection error''))
       (ws_log (ConsoleError ''Control WebSocket error:'') s)"

definition handleAudioMessage :: "jsval \<Rightarrow> ws_provider \<Rightarrow> ws_provider outcome" where
  "handleAudioMessage data s =
     (case get_prop data ''type'' of
        Inl e \<Rightarrow> Threw e s
      | Inr t \<Rightarrow>
          if t = JStr ''analysis_result'' then Returned s
          else if t = JStr ''processed_audio'' then Returned s
          else if t = JStr ''optimized_audio'' then Returned s
          else if t = JStr ''error'' then
            (case get_prop data ''message'' of
               Inl e \<Rightarrow> Threw e s
             | Inr m \<Rightarrow> Returned (ws_toast (ToastError m) s))
          else Returned (ws_log (ConsoleLog ''Unknown audio message type:'') s))"

definition handleControlMessage :: "jsval \<Rightarrow> ws_provider \<Rightarrow> ws_provider outcome" where
  "handleControlMessage data s =
     (case get_prop data ''type'' of
        Inl e \<Rightarrow> Threw e s
      | Inr t \<Rightarrow>
          if t = JStr ''preferences_updated'' then
            Returned (ws_toast (ToastSuccess (JStr ''Preferences updated'')) s)
          else if t = JStr ''eq_enabled'' then
            Returned (ws_toast (ToastSuccess (JStr ''EQ enabled'')) s)
          else if t = JStr ''eq_disabled'' then
            Returned (ws_toast (ToastSuccess (JStr ''EQ disabled'')) s)
          else if t = JStr ''soundstage_enabled'' then
            Returned (ws_toast (ToastSuccess (JStr ''Soundstage optimization enabled'')) s)
          else if t = JStr ''soundstage_disabled'' then
            Returned (ws_toast (ToastSuccess (JStr ''Soundstage optimization disabled'')) s)
          else if t = JStr ''connection_info'' then
            (case get_prop data ''data'' of
               Inl e \<Rightarrow> Threw e s
             | Inr d \<Rightarrow>
                 (case get_prop d ''active_connections'' of
                    Inl e \<Rightarrow> Threw e s
                  | Inr n \<Rightarrow> Returned (s\<lparr>activeConnections := n\<rparr>)))
          else if t = JStr ''error'' then
            (case get_prop data ''message'' of
               Inl e \<Rightarrow> Threw e s
             | Inr m \<Rightarrow> Returned (ws_toast (ToastError m) s))
          else Returned (ws_log (ConsoleLog ''Unknown control message type:'') s))"

definition audioWs_onmessage :: "js_error + jsval \<Rightarrow> ws_provider \<Rightarrow> ws_provider" where
  "audioWs_onmessage parsed s =
     (case parsed of
        Inl e \<Rightarrow> ws_log (ConsoleError ''Error parsing audio WebSocket message:'') s
      | Inr data \<Rightarrow>
          (case handleAudioMessage data (s\<lparr>lastMessage := data\<rparr>) of
             Returned s' \<Rightarrow> s'
           | Threw e s' \<Rightarrow> ws_log (ConsoleError ''Error parsing audio WebSocket message:'') s'))"

definition controlWs_onmessage :: "js_error + jsval \<Rightarrow> ws_provider \<Rightarrow> ws_provider" where
  "controlWs_onmessage parsed s =
     (case parsed of
        Inl e \<Rightarrow> ws_log (ConsoleError ''Error parsing control WebSocket message:'') s
      | Inr data \<Rightarrow>
          (case handleControlMessage data s of
             Returned s' \<Rightarrow> s'
           | Threw e s' \<Rightarrow> ws_log (ConsoleError ''Error parsing control WebSocket message:'') s'))"

definition audio_tags :: "string list" where
  "audio_tags = [''analysis_result'', ''processed_audio'', ''optimized_audio'', ''error'']"

definition control_tags :: "string list" where
  "control_tags = [''preferences_updated'', ''eq_enabled'', ''eq_disabled'',
     ''soundstage_enabled'', ''soundstage_disabled'', ''connection_info'', ''error'']"

subsection \<open>Outbound commands\<close>

text \<open>
  The document that the text \<open>JSON.stringify v\<close> denotes: \<open>undefined\<close> has none, a
  property whose value is \<open>undefined\<close> is left out of an object, an \<open>undefined\<close> array
  element is written as \<open>null\<close>, and so is a number that is not finite.
\<close>

primrec json_of :: "jsval \<Rightarrow> jsval option" where
  "json_of JUndefined = None"
| "json_of JNull = Some JNull"
| "json_of (JBool b) = Some (JBool b)"
| "json_of (JNum r) = Some (JNum r)"
| "json_of (JNonFinite n) = Some JNull"
| "json_of (JStr t) = Some (JStr t)"
| "json_of (JArr xs) =
     Some (JArr (map (\<lambda>j. case j of None \<Rightarrow> JNull | Some v \<Rightarrow> v) (map json_of xs)))"
| "json_of (JObj kvs) =
     Some (JObj (concat (map (\<lambda>(k, j). case j of None \<Rightarrow> [] | Some v \<Rightarrow> [(k, v)])
                             (map (map_prod id json_of) kvs))))"

text \<open>A value with no \<open>undefined\<close> and no non-finite number anywhere inside.\<close>

primrec is_json :: "jsval \<Rightarrow> bool" where
  "is_json JUndefined = False"
| "is_json JNull = True"
| "is_json (JBool b) = True"
| "is_json (JNum r) = True"
| "is_json (JNonFinite n) = False"
| "is_json (JStr t) = True"
| "is_json (JArr xs) = list_all id (map is_json xs)"
| "is_json (JObj kvs) = list_all snd (map (map_prod id is_json) kvs)"

text \<open>
  The argument of \<open>ws.send (JSON.stringify v)\<close>; \<open>send\<close> turns the value \<open>undefined\<close>
  into the string of that name.
\<close>

definition stringified :: "jsval \<Rightarrow> wire" where
  "stringified v = (case json_of v of None \<Rightarrow> Text ''undefined'' | Some j \<Rightarrow> Json j)"

text \<open>The test \<open>ref.current && ref.current.readyState === WebSocket.OPEN\<close>.\<close>

definition socket_open :: "socket option \<Rightarrow> bool" where
  "socket_open r = (case r of None \<Rightarrow> False | Some ws \<Rightarrow> readyState ws = OPEN)"

definition sendAudioData :: "jsval \<Rightarrow> ws_provider \<Rightarrow> ws_provider" where
  "sendAudioData audio_data s =
     (if socket_open (audioWsRef s)
      then s\<lparr>sentAudio := sentAudio s @ [stringified audio_data]\<rparr>
      else ws_log (ConsoleWarn ''Audio WebSocket not connected'') s)"

definition sendControlCommand :: "jsval \<Rightarrow> ws_provider \<Rightarrow> ws_provider" where
  "sendControlCommand command s =
     (if socket_open (controlWsRef s)
      then s\<lparr>sentControl := sentControl s @ [stringified command]\<rparr>
      else ws_log (ConsoleWarn ''Control WebSocket not connected'') s)"

definition ping :: "ws_provider \<Rightarrow> ws_provider" where
  "ping s =
     (if socket_open (audioWsRef s) then s\<lparr>sentAudio := sentAudio s @ [Text ''ping'']\<rparr> else s)"

definition getStatus :: "ws_provider \<Rightarrow> ws_provider" where
  "getStatus s =
     (if socket_open (audioWsRef s) then s\<lparr>sentAudio := sentAudio s @ [Text ''get_status'']\<rparr>
      else s)"

definition toggleAnalysis :: "ws_provider \<Rightarrow> ws_provider" where
  "toggleAnalysis s =
     (if socket_open (audioWsRef s)
      then s\<lparr>sentAudio := sentAudio s @ [Text ''toggle_analysis'']\<rparr> else s)"

definition clearBuffer :: "ws_provider \<Rightarrow> ws_provider" where
  "clearBuffer s =
     (if socket_open (audioWsRef s) then s\<lparr>sentAudio := sentAudio s @ [Text ''clear_buffer'']\<rparr>
      else s)"

definition setPreferences :: "jsval \<Rightarrow> ws_provider \<Rightarrow> ws_provider" where
  "setPreferences preferences =
     sendControlCommand (JObj [(''type'', JStr ''set_preferences''), (''preferences'', preferences)])"

definition enableEQ :: "jsval \<Rightarrow> ws_provider \<Rightarrow> ws_provider" where
  "enableEQ eq_profile =
     sendControlCommand (JObj [(''type'', JStr ''enable_eq''), (''eq_profile'', eq_profile)])"

definition disableEQ :: "ws_provider \<Rightarrow> ws_provider" where
  "disableEQ = sendControlCommand (JObj [(''type'', JStr ''disable_eq'')])"

definition enableSoundstage :: "jsval \<Rightarrow> ws_provider \<Rightarrow> ws_provider" where
  "enableSoundstage soundstage_profile =
     sendControlCommand
       (JObj [(''type'', JStr ''enable_soundstage''), (''soundstage_profile'', soundstage_profile)])"

definition disableSoundstage :: "ws_provider \<Rightarrow> ws_provider" where
  "disableSoundstage = sendControlCommand (JObj [(''type'', JStr ''disable_soundstage'')])"

definition getConnectionInfo :: "ws_provider \<Rightarrow> ws_provider" where
  "getConnectionInfo = sendControlCommand (JObj [(''type'', JStr ''get_connection_info'')])"

text \<open>
  The nominal range of an equalizer gain as the specification words it, \<open>[-12, +12]\<close>
  decibels, and a profile all of whose gains lie in it. The provider has no such check;
  the two predicates only serve to say what it sends.
\<close>

definition spec_gain_in_range :: "jsval \<Rightarrow> bool" where
  "spec_gain_in_range g = (case g of JNum r \<Rightarrow> - 12 \<le> r \<and> r \<le> 12 | _ \<Rightarrow> False)"

definition spec_profile_in_range :: "jsval \<Rightarrow> bool" where
  "spec_profile_in_range p =
     (case get_prop p ''gains'' of
        Inr (JArr gs) \<Rightarrow> list_all spec_gain_in_range gs
      | _ \<Rightarrow> False)"

subsection \<open>The heartbeat\<close>

text \<open>
  The interval effect: every \<open>pingIntervalMs\<close> milliseconds the callback runs; it reads
  the provider's \<open>isConnected\<close> and calls \<open>ping\<close>.
\<close>

definition pingIntervalMs :: nat where
  "pingIntervalMs = 30000"

definition pingIntervalTick :: "ws_provider \<Rightarrow> ws_provider" where
  "pingIntervalTick s = (if isConnected_ws s then ping s else s)"

subsection \<open>Events\<close>

text \<open>
  The provider runs one task at a time: a socket event, a timer firing, an interval tick
  or a call from a consumer. The mount effect opens both sockets. When the browser opens
  or closes the socket with a given id, it sets that socket's \<open>readyState\<close> and then runs
  the handler installed on it.
\<close>

datatype channel = Audio | Control

datatype command =
    Ping | GetStatus | ToggleAnalysis | ClearBuffer
  | SendAudioData jsval | SendControlCommand jsval
  | SetPreferences jsval | EnableEQ jsval | DisableEQ
  | EnableSoundstage jsval | DisableSoundstage | GetConnectionInfo

datatype event =
    SocketOpens channel nat
  | SocketCloses channel nat
  | SocketErrors channel
  | SocketMessage channel "js_error + jsval"
  | TimerFires nat bool
  | PingTick
  | Call command

definition set_ready :: "nat \<Rightarrow> ready_state \<Rightarrow> socket option \<Rightarrow> socket option" where
  "set_ready i r ref =
     (case ref of
        None \<Rightarrow> None
      | Some ws \<Rightarrow> if sock_id ws = i then Some (ws\<lparr>readyState := r\<rparr>) else Some ws)"

definition browser_ready :: "nat \<Rightarrow> ready_state \<Rightarrow> ws_provider \<Rightarrow> ws_provider" where
  "browser_ready i r s =
     s\<lparr>audioWsRef := set_ready i r (audioWsRef s),
       controlWsRef := set_ready i r (controlWsRef s)\<rparr>"

definition mount :: "bool \<Rightarrow> bool \<Rightarrow> ws_provider \<Rightarrow> ws_provider" where
  "mount ok_audio ok_control s =
     connectControlWebSocket ok_control (connectAudioWebSocket ok_audio s)"

fun call :: "command \<Rightarrow> ws_provider \<Rightarrow> ws_provider" where
  "call Ping s = ping s"
| "call GetStatus s = getStatus s"
| "call ToggleAnalysis s = toggleAnalysis s"
| "call ClearBuffer s = clearBuffer s"
| "call (SendAudioData v) s = sendAudioData v s"
| "call (SendControlCommand v) s = sendControlCommand v s"
| "call (SetPreferences v) s = setPreferences v s"
| "call (EnableEQ v) s = enableEQ v s"
| "call DisableEQ s = disableEQ s"
| "call (EnableSoundstage v) s = enableSoundstage v s"
| "call DisableSoundstage s = disableSoundstage s"
| "call GetConnectionInfo s = getConnectionInfo s"

fun step :: "event \<Rightarrow> ws_provider \<Rightarrow> ws_provider" where
  "step (SocketOpens Audio i) s = audioWs_onopen (browser_ready i OPEN s)"
| "step (SocketOpens Control i) s = controlWs_onopen (browser_ready i OPEN s)"
| "step (SocketCloses Audio i) s = audioWs_onclose (browser_ready i CLOSED s)"
| "step (SocketCloses Control i) s = controlWs_onclose (browser_ready i CLOSED s)"
| "step (SocketErrors Audio) s = audioWs_onerror s"
| "step (SocketErrors Control) s = controlWs_onerror s"
| "step (SocketMessage Audio parsed) s = audioWs_onmessage parsed s"
| "step (SocketMessage Control parsed) s = controlWs_onmessage parsed s"
| "step (TimerFires t ok) s =
     (if t \<in> set (map fst (pendingTimers s))
      then reconnectCallback ok (clearTimeout t s)
      else s)"
| "step PingTick s = pingIntervalTick s"
| "step (Call c) s = call c s"

definition run :: "event list \<Rightarrow> ws_provider \<Rightarrow> ws_provider" where
  "run es s = fold step es s"

fun is_audio_close :: "event \<Rightarrow> bool" where
  "is_audio_close (SocketCloses Audio i) = True"
| "is_audio_close e = False"

fun is_audio_open :: "event \<Rightarrow> bool" where
  "is_audio_open (SocketOpens Audio i) = True"
| "is_audio_open e = False"

subsection \<open>Some reachable states\<close>

text \<open>
  The provider after its mount effect (audio socket 0 and control socket 1, both still
  connecting), then with the control socket open, and with the audio socket open instead.
\<close>

definition provider_mounted :: ws_provider where
  "provider_mounted = mount True True ws_initial"

definition control_connected :: ws_provider where
  "control_connected = step (SocketOpens Control 1) provider_mounted"

definition audio_connected :: ws_provider where
  "audio_connected = step (SocketOpens Audio 0) provider_mounted"

section \<open>Properties of object spread\<close>

lemma map_of_spread_into:
  "map_of (spread_into acc ps) = map_of acc ++ map_of (rev ps)"
  unfolding spread_into_def
proof (induction ps arbitrary: acc)
  case Nil
  show ?case by simp
next
  case (Cons p ps)
  obtain k v where p: "p = (k, v)" by (cases p)
  have "map_of (fold (\<lambda>(k, v). AList.update k v) ps (AList.update k v acc))
        = map_of (AList.update k v acc) ++ map_of (rev ps)"
    by (rule Cons.IH)
  also have "\<dots> = (map_of acc)(k \<mapsto> v) ++ map_of (rev ps)"
    by (simp add: update_conv')
  also have "\<dots> = map_of acc ++ map_of (rev ps @ [(k, v)])"
    by (simp add: map_add_upd_left map_add_def fun_eq_iff split: option.splits)
  finally show ?case by (simp add: p)
qed

lemma distinct_spread_into:
  "distinct (map fst acc) \<Longrightarrow> distinct (map fst (spread_into acc ps))"
  unfolding spread_into_def
  by (induction ps arbitrary: acc) (auto simp: distinct_update)

lemma obj_get_distinct:
  "distinct (map fst kvs) \<Longrightarrow> obj_get kvs = map_of kvs"
proof -
  assume "distinct (map fst kvs)"
  then have "map_of (rev kvs) = map_of kvs"
    by (subst map_of_inject_set) (simp_all add: rev_map [symmetric])
  then show ?thesis
    by (simp add: obj_get_def fun_eq_iff)
qed

lemma obj_get_spread2:
  "obj_get (spread2 a b) k =
     (case obj_get (own_props b) k of
        Some v \<Rightarrow> Some v
      | None \<Rightarrow> obj_get (own_props a) k)"
proof -
  have d: "distinct (map fst (spread2 a b))"
    unfolding spread2_def by (intro distinct_spread_into) simp
  have "obj_get (spread2 a b) k = map_of (spread2 a b) k"
    using obj_get_distinct [OF d] by simp
  also have "\<dots> = (map_of (rev (own_props a)) ++ map_of (rev (own_props b))) k"
    unfolding spread2_def by (simp add: map_of_spread_into)
  finally show ?thesis
    by (simp add: obj_get_def map_add_def split: option.splits)
qed

section \<open>Properties of the store operations\<close>

text \<open>
  Claim C6: for every state, \<open>RESET_AUDIO_STATE\<close> puts \<open>audioData\<close>, \<open>analysisResults\<close>,
  \<open>isAnalyzing\<close> and \<open>isProcessing\<close> back to their initial values and leaves \<open>eqGains\<close>,
  \<open>eqProfile\<close>, \<open>soundstageProfile\<close>, \<open>userPreferences\<close> and every other field exactly as
  they were, whatever payload the action carries.
\<close>

theorem reset_audio_state_frame:
  "audioReducer s \<lparr>atype = ''RESET_AUDIO_STATE'', payload = p\<rparr> =
     s\<lparr>audioData := audioData initialState,
       analysisResults := analysisResults initialState,
       isAnalyzing := isAnalyzing initialState,
       isProcessing := isProcessing initialState\<rparr>
   \<and> eqGains (audioReducer s \<lparr>atype = ''RESET_AUDIO_STATE'', payload = p\<rparr>) = eqGains s
   \<and> eqProfile (audioReducer s \<lparr>atype = ''RESET_AUDIO_STATE'', payload = p\<rparr>) = eqProfile s
   \<and> soundstageProfile (audioReducer s \<lparr>atype = ''RESET_AUDIO_STATE'', payload = p\<rparr>)
       = soundstageProfile s
   \<and> userPreferences (audioReducer s \<lparr>atype = ''RESET_AUDIO_STATE'', payload = p\<rparr>)
       = userPreferences s
   \<and> isConnected (audioReducer s \<lparr>atype = ''RESET_AUDIO_STATE'', payload = p\<rparr>) = isConnected s
   \<and> frequencyBands (audioReducer s \<lparr>atype = ''RESET_AUDIO_STATE'', payload = p\<rparr>)
       = frequencyBands s
   \<and> realTimeData (audioReducer s \<lparr>atype = ''RESET_AUDIO_STATE'', payload = p\<rparr>)
       = realTimeData s"
  by (simp add: audioReducer_def initialState_def)

text \<open>
  Claim C3 (as stated): after \<open>UPDATE_EQ_GAINS\<close> the gains have length exactly 31, a
  payload of another length being rejected or padded or truncated. The reducer stores the
  payload as it is: from the initial state, a payload of three gains leaves three gains.
\<close>

theorem update_eq_gains_length_counterexample:
  "get_prop (eqGains (audioReducer initialState
       \<lparr>atype = ''UPDATE_EQ_GAINS'', payload = JArr [JNum 1, JNum 2, JNum 3]\<rparr>)) ''length''
     = Inr (JNum 3)
   \<and> get_prop (eqGains (audioReducer initialState
       \<lparr>atype = ''UPDATE_EQ_GAINS'', payload = JArr [JNum 1, JNum 2, JNum 3]\<rparr>)) ''length''
     \<noteq> Inr (JNum 31)"
  by (simp add: audioReducer_def obj_get_def upt_rec)

text \<open>
  Claim C3 (amended): for every state and every payload, \<open>UPDATE_EQ_GAINS\<close> replaces
  \<open>eqGains\<close> by the payload wholesale and changes no other field; no length check, padding
  or truncation takes place, so the length of the gains afterwards is the length of the
  payload.
\<close>

theorem update_eq_gains_replaces:
  "audioReducer s \<lparr>atype = ''UPDATE_EQ_GAINS'', payload = p\<rparr> = s\<lparr>eqGains := p\<rparr>
   \<and> get_prop (eqGains (audioReducer s \<lparr>atype = ''UPDATE_EQ_GAINS'', payload = p\<rparr>)) ''length''
       = get_prop p ''length''"
  by (simp add: audioReducer_def)

text \<open>
  Claim C4 (as stated): \<open>UPDATE_USER_PREFERENCES\<close> ignores the payload's keys that are not
  fields of the user preferences, and validates the type and range of the known ones. From
  the initial state, the unknown key \<open>volume_boost\<close> ends up in the preferences, and the
  string \<open>loud\<close> is accepted for \<open>bass_preference\<close>.
\<close>

theorem update_user_preferences_counterexample:
  "obj_get (userPreferences (audioReducer initialState
       \<lparr>atype = ''UPDATE_USER_PREFERENCES'',
        payload = JObj [(''volume_boost'', JNum 11), (''bass_preference'', JStr ''loud'')]\<rparr>))
     ''volume_boost'' = Some (JNum 11)
   \<and> obj_get (userPreferences (audioReducer initialState
       \<lparr>atype = ''UPDATE_USER_PREFERENCES'',
        payload = JObj [(''volume_boost'', JNum 11), (''bass_preference'', JStr ''loud'')]\<rparr>))
     ''bass_preference'' = Some (JStr ''loud'')"
  by (simp add: audioReducer_def initialState_def spread2_def spread_into_def obj_get_def)

text \<open>
  Claim C4 (amended): for every state and every payload, \<open>UPDATE_USER_PREFERENCES\<close> merges
  the payload into the user preferences key by key: every own key of the payload, known or
  not, takes the payload's value as it is, every other key keeps its value, and no field
  of the state other than \<open>userPreferences\<close> changes.
\<close>

theorem update_user_preferences_merges:
  "obj_get (userPreferences (audioReducer s \<lparr>atype = ''UPDATE_USER_PREFERENCES'', payload = p\<rparr>)) k
     = (case obj_get (own_props p) k of
          Some v \<Rightarrow> Some v
        | None \<Rightarrow> obj_get (userPreferences s) k)
   \<and> audioReducer s \<lparr>atype = ''UPDATE_USER_PREFERENCES'', payload = p\<rparr>
     = s\<lparr>userPreferences :=
          userPreferences (audioReducer s \<lparr>atype = ''UPDATE_USER_PREFERENCES'', payload = p\<rparr>)\<rparr>"
  by (simp add: audioReducer_def obj_get_spread2 split: option.splits)

section \<open>Properties of message handling\<close>

lemma get_prop_defined_everywhere:
  "get_prop data k = Inr t \<Longrightarrow> \<exists>d. get_prop data k' = Inr d"
  by (cases data) (auto split: option.splits)

text \<open>
  Claim C5: for every message whose type is \<open>analysis_result\<close>, the handler of the audio
  context replaces \<open>analysisResults\<close> wholesale by the message's \<open>data\<close> payload, and merges
  the payload's \<open>acoustic_profile\<close> object into \<open>realTimeData\<close> key by key: a key of
  \<open>realTimeData\<close> that the object does not carry keeps its value. When the payload is
  \<open>null\<close> or absent, reading its profile throws after the replacement (the socket's
  \<open>onmessage\<close> catches it), and \<open>realTimeData\<close> is as before. Nothing else in the store
  changes.
\<close>

theorem analysis_result_replaces_and_merges:
  assumes "get_prop data ''type'' = Inr (JStr ''analysis_result'')"
  shows "\<exists>d. get_prop data ''data'' = Inr d
     \<and> analysisResults (store (state_of (handleWebSocketMessage data w))) = d
     \<and> (\<forall>k. obj_get (realTimeData (store (state_of (handleWebSocketMessage data w)))) k
            = (case get_prop d ''acoustic_profile'' of
                 Inl e \<Rightarrow> obj_get (realTimeData (store w)) k
               | Inr ap \<Rightarrow>
                   (case obj_get (own_props ap) k of
                      Some v \<Rightarrow> Some v
                    | None \<Rightarrow> obj_get (realTimeData (store w)) k)))
     \<and> store (state_of (handleWebSocketMessage data w))
         = (store w)\<lparr>analysisResults := d,
              realTimeData := realTimeData (store (state_of (handleWebSocketMessage data w)))\<rparr>
     \<and> toasts (state_of (handleWebSocketMessage data w)) = toasts w
     \<and> console (state_of (handleWebSocketMessage data w)) = console w"
proof -
  obtain d where d: "get_prop data ''data'' = Inr d"
    using get_prop_defined_everywhere [OF assms] by blast
  show ?thesis
  proof (cases "get_prop d ''acoustic_profile''")
    case (Inl e)
    with assms d show ?thesis
      by (simp add: handleWebSocketMessage_def dispatch_def audioReducer_def)
  next
    case (Inr ap)
    with assms d show ?thesis
      by (simp add: handleWebSocketMessage_def dispatch_def audioReducer_def obj_get_spread2
               split: option.splits)
  qed
qed

theorem analysis_result_witness:
  "get_prop (JObj [(''type'', JStr ''analysis_result''),
                   (''data'', JObj [(''clarity_index'', JNum 3),
                                    (''acoustic_profile'', JObj [(''stereoWidth'', JNum 1)])])])
            ''type'' = Inr (JStr ''analysis_result'')
   \<and> obj_get (realTimeData (store (state_of (handleWebSocketMessage
        (JObj [(''type'', JStr ''analysis_result''),
               (''data'', JObj [(''clarity_index'', JNum 3),
                                (''acoustic_profile'', JObj [(''stereoWidth'', JNum 1)])])])
        \<lparr>store = initialState, toasts = [], console = []\<rparr>)))) ''noiseFloor'' = Some (JNum (-60))
   \<and> obj_get (realTimeData (store (state_of (handleWebSocketMessage
        (JObj [(''type'', JStr ''analysis_result''),
               (''data'', JObj [(''clarity_index'', JNum 3),
                                (''acoustic_profile'', JObj [(''stereoWidth'', JNum 1)])])])
        \<lparr>store = initialState, toasts = [], console = []\<rparr>)))) ''stereoWidth'' = Some (JNum 1)"
  using analysis_result_replaces_and_merges
    [of "JObj [(''type'', JStr ''analysis_result''),
               (''data'', JObj [(''clarity_index'', JNum 3),
                                (''acoustic_profile'', JObj [(''stereoWidth'', JNum 1)])])]"
        "\<lparr>store = initialState, toasts = [], console = []\<rparr>"]
  by (simp add: obj_get_def initialState_def)

text \<open>
  Claim C8: a message whose type is none of the tags a handler knows is logged and dropped.
  The handler of the audio context returns with the store and the toasts as they were and
  one more console line; the provider's two handlers return with the provider's state as it
  was and one more console line. Nothing is thrown. (The provider's audio socket records
  every parsed message in \<open>lastMessage\<close> before it calls its handler.)
\<close>

theorem unknown_type_logged_and_dropped:
  assumes "get_prop data ''type'' = Inr t"
  shows "(t \<notin> JStr ` set audio_context_tags \<longrightarrow>
            handleWebSocketMessage data w
              = Returned (w\<lparr>console := console w @ [ConsoleLog ''Unknown WebSocket message type:'']\<rparr>)
          \<and> store (audioContext_onmessage (Inr data) w) = store w
          \<and> toasts (audioContext_onmessage (Inr data) w) = toasts w)
       \<and> (t \<notin> JStr ` set audio_tags \<longrightarrow>
            handleAudioMessage data s
              = Returned (ws_log (ConsoleLog ''Unknown audio message type:'') s)
          \<and> audioWs_onmessage (Inr data) s
              = ws_log (ConsoleLog ''Unknown audio message type:'') (s\<lparr>lastMessage := data\<rparr>))
       \<and> (t \<notin> JStr ` set control_tags \<longrightarrow>
            handleControlMessage data s
              = Returned (ws_log (ConsoleLog ''Unknown control message type:'') s)
          \<and> controlWs_onmessage (Inr data) s
              = ws_log (ConsoleLog ''Unknown control message type:'') s)"
  using assms
  by (simp add: audio_context_tags_def audio_tags_def control_tags_def
        handleWebSocketMessage_def handleAudioMessage_def handleControlMessage_def
        audioContext_onmessage_def audioWs_onmessage_def controlWs_onmessage_def)

theorem unknown_type_witness:
  "get_prop (JObj [(''type'', JStr ''firmware_notice'')]) ''type'' = Inr (JStr ''firmware_notice'')
   \<and> JStr ''firmware_notice'' \<notin> JStr ` set audio_context_tags
   \<and> JStr ''firmware_notice'' \<notin> JStr ` set audio_tags
   \<and> JStr ''firmware_notice'' \<notin> JStr ` set control_tags
   \<and> store (audioContext_onmessage (Inr (JObj [(''type'', JStr ''firmware_notice'')]))
        \<lparr>store = initialState, toasts = [], console = []\<rparr>) = initialState
   \<and> handleAudioMessage (JObj [(''type'', JStr ''firmware_notice'')]) ws_initial
       = Returned (ws_log (ConsoleLog ''Unknown audio message type:'') ws_initial)
   \<and> controlWs_onmessage (Inr (JObj [(''type'', JStr ''firmware_notice'')])) ws_initial
       = ws_log (ConsoleLog ''Unknown control message type:'') ws_initial"
  using unknown_type_logged_and_dropped
    [of "JObj [(''type'', JStr ''firmware_notice'')]" "JStr ''firmware_notice''"
        "\<lparr>store = initialState, toasts = [], console = []\<rparr>" ws_initial]
  by (simp add: obj_get_def audio_context_tags_def audio_tags_def control_tags_def)

section \<open>Properties of the reconnect scheduler\<close>

lemmas command_defs =
  ping_def getStatus_def toggleAnalysis_def clearBuffer_def
  sendAudioData_def sendControlCommand_def setPreferences_def enableEQ_def disableEQ_def
  enableSoundstage_def disableSoundstage_def getConnectionInfo_def

lemma call_keeps_reconnect:
  "reconnectAttempts (call c s) = reconnectAttempts s
   \<and> setTimeoutCalls (call c s) = setTimeoutCalls s"
  by (cases c) (simp_all add: command_defs ws_log_def)

lemma handleAudioMessage_keeps_reconnect:
  "reconnectAttempts (state_of (handleAudioMessage d s)) = reconnectAttempts s
   \<and> setTimeoutCalls (state_of (handleAudioMessage d s)) = setTimeoutCalls s"
  by (simp add: handleAudioMessage_def ws_log_def ws_toast_def split: sum.splits)

lemma handleControlMessage_keeps_reconnect:
  "reconnectAttempts (state_of (handleControlMessage d s)) = reconnectAttempts s
   \<and> setTimeoutCalls (state_of (handleControlMessage d s)) = setTimeoutCalls s"
  by (simp add: handleControlMessage_def ws_log_def ws_toast_def split: sum.splits)

lemma audioWs_onmessage_keeps_reconnect:
  "reconnectAttempts (audioWs_onmessage f s) = reconnectAttempts s
   \<and> setTimeoutCalls (audioWs_onmessage f s) = setTimeoutCalls s"
proof (cases f)
  case (Inl e)
  then show ?thesis by (simp add: audioWs_onmessage_def ws_log_def)
next
  case (Inr d)
  show ?thesis
    using handleAudioMessage_keeps_reconnect [of d "s\<lparr>lastMessage := d\<rparr>"]
    by (cases "handleAudioMessage d (s\<lparr>lastMessage := d\<rparr>)")
       (simp_all add: audioWs_onmessage_def Inr ws_log_def)
qed

lemma controlWs_onmessage_keeps_reconnect:
  "reconnectAttempts (controlWs_onmessage f s) = reconnectAttempts s
   \<and> setTimeoutCalls (controlWs_onmessage f s) = setTimeoutCalls s"
proof (cases f)
  case (Inl e)
  then show ?thesis by (simp add: controlWs_onmessage_def ws_log_def)
next
  case (Inr d)
  show ?thesis
    using handleControlMessage_keeps_reconnect [of d s]
    by (cases "handleControlMessage d s")
       (simp_all add: controlWs_onmessage_def Inr ws_log_def)
qed

lemma step_keeps_reconnect:
  assumes "\<not> is_audio_close e" and "\<not> is_audio_open e"
  shows "reconnectAttempts (step e s) = reconnectAttempts s
         \<and> setTimeoutCalls (step e s) = setTimeoutCalls s"
proof (cases e)
  case (SocketOpens c i)
  with assms show ?thesis
    by (cases c) (simp_all add: controlWs_onopen_def ws_log_def browser_ready_def)
next
  case (SocketCloses c i)
  with assms show ?thesis
    by (cases c) (simp_all add: controlWs_onclose_def ws_log_def browser_ready_def)
next
  case (SocketErrors c)
  then show ?thesis
    by (cases c) (simp_all add: audioWs_onerror_def controlWs_onerror_def ws_log_def ws_toast_def)
next
  case (SocketMessage c f)
  then show ?thesis
    by (cases c) (simp_all add: audioWs_onmessage_keeps_reconnect controlWs_onmessage_keeps_reconnect)
next
  case (TimerFires t ok)
  then show ?thesis
    by (simp add: reconnectCallback_def connectAudioWebSocket_def clearTimeout_def
          ws_log_def ws_toast_def)
next
  case PingTick
  then show ?thesis by (simp add: pingIntervalTick_def ping_def)
next
  case (Call c)
  then show ?thesis by (simp add: call_keeps_reconnect)
qed

lemma audioWs_onclose_schedules:
  assumes "reconnectAttempts s < maxReconnectAttempts"
  shows "reconnectAttempts (audioWs_onclose s) = reconnectAttempts s + 1
         \<and> setTimeoutCalls (audioWs_onclose s)
             = setTimeoutCalls s @ [reconnectDelay (reconnectAttempts s)]"
  using assms
  by (simp add: audioWs_onclose_def scheduleReconnect_def setTimeout_def clearTimeout_def
        ws_log_def Let_def split: option.splits)

lemma audio_close_step:
  assumes "is_audio_close e" and "reconnectAttempts s < maxReconnectAttempts"
  shows "reconnectAttempts (step e s) = reconnectAttempts s + 1
         \<and> setTimeoutCalls (step e s) = setTimeoutCalls s @ [reconnectDelay (reconnectAttempts s)]"
proof -
  from assms(1) obtain i where e: "e = SocketCloses Audio i"
    by (cases e rule: is_audio_close.cases) auto
  have "reconnectAttempts (browser_ready i CLOSED s) < maxReconnectAttempts"
    using assms(2) by (simp add: browser_ready_def)
  from audioWs_onclose_schedules [OF this] show ?thesis
    by (simp add: e browser_ready_def)
qed

lemma run_Cons: "run (e # es) s = run es (step e s)"
  by (simp add: run_def)

lemma run_append: "run (es1 @ es2) s = run es2 (run es1 s)"
  by (simp add: run_def)

lemma upt_shift: "[a ..< a + Suc n] = a # [Suc a ..< Suc a + n]"
  using upt_conv_Cons [of a "a + Suc n"] by (simp del: upt_Suc)

lemma run_consecutive_closes:
  assumes "\<forall>e \<in> set es. \<not> is_audio_open e"
    and "reconnectAttempts s + length (filter is_audio_close es) \<le> maxReconnectAttempts"
  shows "reconnectAttempts (run es s) = reconnectAttempts s + length (filter is_audio_close es)
         \<and> setTimeoutCalls (run es s)
             = setTimeoutCalls s
               @ map reconnectDelay
                   [reconnectAttempts s ..< reconnectAttempts s + length (filter is_audio_close es)]"
  using assms
proof (induction es arbitrary: s)
  case Nil
  show ?case by (simp add: run_def)
next
  case (Cons e es)
  show ?case
  proof (cases "is_audio_close e")
    case True
    with Cons.prems have lt: "reconnectAttempts s < maxReconnectAttempts" by simp
    note st = audio_close_step [OF True lt]
    have "reconnectAttempts (step e s) + length (filter is_audio_close es) \<le> maxReconnectAttempts"
      using Cons.prems True st by simp
    moreover have "[reconnectAttempts s ..< reconnectAttempts s + Suc (length (filter is_audio_close es))]
        = reconnectAttempts s
          # [Suc (reconnectAttempts s) ..< Suc (reconnectAttempts s) + length (filter is_audio_close es)]"
      by (rule upt_shift)
    ultimately show ?thesis
      using Cons.IH [of "step e s"] Cons.prems st True
      by (simp add: run_Cons del: upt_Suc)
  next
    case False
    with Cons.prems have "\<not> is_audio_open e" by simp
    note st = step_keeps_reconnect [OF False this, of s]
    with Cons.IH [of "step e s"] Cons.prems False show ?thesis
      by (simp add: run_Cons)
  qed
qed

lemma backoff_prefix:
  "N \<le> 5 \<Longrightarrow> map reconnectDelay [0..<N] = take N [1000, 2000, 4000, 8000, 16000]"
proof -
  assume "N \<le> 5"
  then consider "N = 0" | "N = 1" | "N = 2" | "N = 3" | "N = 4" | "N = 5" by linarith
  then show ?thesis
    by cases (simp_all add: reconnectDelay_def upt_rec)
qed


text \<open>
  Claim C1: start with the attempt counter at 0 and let the audio socket close \<open>N\<close> times,
  \<open>N\<close> below the cap of 5, with no open of the audio socket in between and any other
  events interleaved (timers firing, control socket events, messages, commands, pings).
  Then the delays handed to \<open>setTimeout\<close> during the run are the first \<open>N\<close> of 1000, 2000,
  4000, 8000, 16000 milliseconds, the \<open>k\<close>-th being \<open>min (1000 * 2 ^ k) 30000\<close> for the
  attempt count \<open>k\<close> at that close; the counter ends at \<open>N\<close>; every close in the run adds
  exactly 1 to the counter and schedules exactly one delay, and no other event of the run
  changes the counter or schedules anything.
\<close>

theorem reconnect_backoff_sequence:
  assumes "reconnectAttempts s = 0"
    and "\<forall>e \<in> set es. \<not> is_audio_open e"
    and "length (filter is_audio_close es) = N"
    and "N < maxReconnectAttempts"
  shows "setTimeoutCalls (run es s) = setTimeoutCalls s @ take N [1000, 2000, 4000, 8000, 16000]
     \<and> setTimeoutCalls (run es s)
         = setTimeoutCalls s @ map (\<lambda>k. min (1000 * 2 ^ k) 30000) [0..<N]
     \<and> reconnectAttempts (run es s) = N
     \<and> (\<forall>es1 e es2. es = es1 @ e # es2 \<longrightarrow>
           (if is_audio_close e
            then reconnectAttempts (run (es1 @ [e]) s) = reconnectAttempts (run es1 s) + 1
               \<and> setTimeoutCalls (run (es1 @ [e]) s)
                   = setTimeoutCalls (run es1 s)
                     @ [min (1000 * 2 ^ reconnectAttempts (run es1 s)) 30000]
            else reconnectAttempts (run (es1 @ [e]) s) = reconnectAttempts (run es1 s)
               \<and> setTimeoutCalls (run (es1 @ [e]) s) = setTimeoutCalls (run es1 s)))"
proof -
  have cap: "maxReconnectAttempts = 5" by (simp add: maxReconnectAttempts_def)
  have le: "reconnectAttempts s + length (filter is_audio_close es) \<le> maxReconnectAttempts"
    using assms by simp
  note whole = run_consecutive_closes [OF assms(2) le]
  have delays: "map reconnectDelay [0..<N] = take N [1000, 2000, 4000, 8000, 16000]"
    using assms(4) cap by (intro backoff_prefix) simp
  have unfolded: "map reconnectDelay [0..<N] = map (\<lambda>k. min (1000 * 2 ^ k) 30000) [0..<N]"
    by (simp add: reconnectDelay_def)
  have steps: "if is_audio_close e
            then reconnectAttempts (run (es1 @ [e]) s) = reconnectAttempts (run es1 s) + 1
               \<and> setTimeoutCalls (run (es1 @ [e]) s)
                   = setTimeoutCalls (run es1 s)
                     @ [min (1000 * 2 ^ reconnectAttempts (run es1 s)) 30000]
            else reconnectAttempts (run (es1 @ [e]) s) = reconnectAttempts (run es1 s)
               \<and> setTimeoutCalls (run (es1 @ [e]) s) = setTimeoutCalls (run es1 s)"
    if split: "es = es1 @ e # es2" for es1 e es2
  proof (cases "is_audio_close e")
    case True
    have no_open: "\<forall>x \<in> set es1. \<not> is_audio_open x"
      using assms(2) split by simp
    have count: "length (filter is_audio_close es1) < N"
      using assms(3) split True by auto
    then have "reconnectAttempts s + length (filter is_audio_close es1) \<le> maxReconnectAttempts"
      using assms(1,4) by simp
    from run_consecutive_closes [OF no_open this]
    have "reconnectAttempts (run es1 s) < maxReconnectAttempts"
      using count assms(1,4) by simp
    from audio_close_step [OF True this] True show ?thesis
      by (simp add: run_append run_def reconnectDelay_def)
  next
    case False
    have "\<not> is_audio_open e" using assms(2) split by simp
    from step_keeps_reconnect [OF False this, of "run es1 s"] False show ?thesis
      by (simp add: run_append run_def)
  qed
  have calls: "setTimeoutCalls (run es s) = setTimeoutCalls s @ map reconnectDelay [0..<N]"
    using whole assms(1,3) by simp
  have count: "reconnectAttempts (run es s) = N"
    using whole assms(1,3) by simp
  show ?thesis
  proof (intro conjI allI impI)
    show "setTimeoutCalls (run es s) = setTimeoutCalls s @ take N [1000, 2000, 4000, 8000, 16000]"
      using calls delays by simp
    show "setTimeoutCalls (run es s)
            = setTimeoutCalls s @ map (\<lambda>k. min (1000 * 2 ^ k) 30000) [0..<N]"
      using calls unfolded by simp
    show "reconnectAttempts (run es s) = N"
      by (rule count)
  qed (rule steps)
qed

theorem reconnect_backoff_witness:
  "reconnectAttempts provider_mounted = 0
   \<and> filter is_audio_open
        [SocketCloses Audio 0, TimerFires 1 True, SocketCloses Audio 2,
         SocketMessage Control (Inl SyntaxError), TimerFires 2 False,
         SocketCloses Audio 2] = []
   \<and> length (filter is_audio_close
        [SocketCloses Audio 0, TimerFires 1 True, SocketCloses Audio 2,
         SocketMessage Control (Inl SyntaxError), TimerFires 2 False,
         SocketCloses Audio 2]) = 3
   \<and> (3::nat) < maxReconnectAttempts
   \<and> setTimeoutCalls (run [SocketCloses Audio 0, TimerFires 1 True, SocketCloses Audio 2,
         SocketMessage Control (Inl SyntaxError), TimerFires 2 False,
         SocketCloses Audio 2] provider_mounted) = [1000, 2000, 4000]
   \<and> reconnectAttempts (run [SocketCloses Audio 0, TimerFires 1 True, SocketCloses Audio 2,
         SocketMessage Control (Inl SyntaxError), TimerFires 2 False,
         SocketCloses Audio 2] provider_mounted) = 3"
proof -
  let ?es = "[SocketCloses Audio 0, TimerFires 1 True, SocketCloses Audio 2,
         SocketMessage Control (Inl SyntaxError), TimerFires 2 False,
         SocketCloses Audio 2]"
  have h1: "reconnectAttempts provider_mounted = 0"
    by (simp add: provider_mounted_def mount_def connectAudioWebSocket_def
          connectControlWebSocket_def ws_initial_def)
  have h2: "\<forall>e \<in> set ?es. \<not> is_audio_open e" by simp
  have h3: "length (filter is_audio_close ?es) = 3" by simp
  have h4: "(3::nat) < maxReconnectAttempts" by (simp add: maxReconnectAttempts_def)
  have h5: "setTimeoutCalls provider_mounted = []"
    by (simp add: provider_mounted_def mount_def connectAudioWebSocket_def
          connectControlWebSocket_def ws_initial_def)
  from reconnect_backoff_sequence [OF h1 h2 h3 h4] h1 h2 h3 h4 h5 show ?thesis
    by simp
qed

section \<open>Properties of the two channels\<close>

text \<open>
  What the two close handlers change. A close of the audio socket below the cap makes one
  \<open>setTimeout\<close> call with the backoff delay, cancels the timer pending before it and
  raises the count by one; it never changes the control socket's reference, its connected
  flag or what was sent on it. A close of the control socket logs, clears the control
  reference and the connected flag, and leaves the audio socket's reference and status,
  the attempt count, the timer reference and the pending timers as they were.
\<close>

lemma channel_close_frame:
  "(reconnectAttempts s < maxReconnectAttempts \<longrightarrow>
      setTimeoutCalls (audioWs_onclose s)
        = setTimeoutCalls s @ [reconnectDelay (reconnectAttempts s)]
    \<and> pendingTimers (audioWs_onclose s)
        = (case reconnectTimeoutRef s of
             None \<Rightarrow> pendingTimers s
           | Some t \<Rightarrow>
               if t \<noteq> 0 then filter (\<lambda>(i, d). i \<noteq> t) (pendingTimers s)
               else pendingTimers s)
          @ [(nextTimer s, reconnectDelay (reconnectAttempts s))]
    \<and> reconnectTimeoutRef (audioWs_onclose s) = Some (nextTimer s)
    \<and> reconnectAttempts (audioWs_onclose s) = reconnectAttempts s + 1)
   \<and> audioWsRef (audioWs_onclose s) = None
   \<and> connectionStatus (audioWs_onclose s) = ''disconnected''
   \<and> isConnected_ws (audioWs_onclose s) = isConnected_ws s
   \<and> controlWsRef (audioWs_onclose s) = controlWsRef s
   \<and> sentControl (audioWs_onclose s) = sentControl s
   \<and> controlWs_onclose s
       = s\<lparr>ws_console := ws_console s @ [ConsoleLog ''Control WebSocket disconnected:''],
            isConnected_ws := False, controlWsRef := None\<rparr>
   \<and> setTimeoutCalls (controlWs_onclose s) = setTimeoutCalls s
   \<and> pendingTimers (controlWs_onclose s) = pendingTimers s
   \<and> reconnectTimeoutRef (controlWs_onclose s) = reconnectTimeoutRef s
   \<and> reconnectAttempts (controlWs_onclose s) = reconnectAttempts s
   \<and> audioWsRef (controlWs_onclose s) = audioWsRef s
   \<and> connectionStatus (controlWs_onclose s) = connectionStatus s
   \<and> sentAudio (controlWs_onclose s) = sentAudio s"
  by (simp add: audioWs_onclose_def controlWs_onclose_def scheduleReconnect_def
        setTimeout_def clearTimeout_def ws_log_def ws_toast_def Let_def split: option.splits)

text \<open>
  Once the control reference is empty, no event fills it again and nothing more is sent on
  the control socket: only the mount effect calls \<open>connectControlWebSocket\<close>.
\<close>

lemma call_keeps_control_closed:
  assumes "controlWsRef s = None"
  shows "controlWsRef (call c s) = None \<and> sentControl (call c s) = sentControl s"
  using assms
  by (cases c) (simp_all add: command_defs ws_log_def socket_open_def)

lemma handleAudioMessage_keeps_control:
  "controlWsRef (state_of (handleAudioMessage d s)) = controlWsRef s
   \<and> sentControl (state_of (handleAudioMessage d s)) = sentControl s"
  by (simp add: handleAudioMessage_def ws_log_def ws_toast_def split: sum.splits)

lemma handleControlMessage_keeps_control:
  "controlWsRef (state_of (handleControlMessage d s)) = controlWsRef s
   \<and> sentControl (state_of (handleControlMessage d s)) = sentControl s"
  by (simp add: handleControlMessage_def ws_log_def ws_toast_def split: sum.splits)

lemma audioWs_onmessage_keeps_control:
  "controlWsRef (audioWs_onmessage f s) = controlWsRef s
   \<and> sentControl (audioWs_onmessage f s) = sentControl s"
proof (cases f)
  case (Inl e)
  then show ?thesis by (simp add: audioWs_onmessage_def ws_log_def)
next
  case (Inr d)
  show ?thesis
    using handleAudioMessage_keeps_control [of d "s\<lparr>lastMessage := d\<rparr>"]
    by (cases "handleAudioMessage d (s\<lparr>lastMessage := d\<rparr>)")
       (simp_all add: audioWs_onmessage_def Inr ws_log_def)
qed

lemma controlWs_onmessage_keeps_control:
  "controlWsRef (controlWs_onmessage f s) = controlWsRef s
   \<and> sentControl (controlWs_onmessage f s) = sentControl s"
proof (cases f)
  case (Inl e)
  then show ?thesis by (simp add: controlWs_onmessage_def ws_log_def)
next
  case (Inr d)
  show ?thesis
    using handleControlMessage_keeps_control [of d s]
    by (cases "handleControlMessage d s")
       (simp_all add: controlWs_onmessage_def Inr ws_log_def)
qed

lemma audioWs_onclose_keeps_control:
  "controlWsRef (audioWs_onclose s) = controlWsRef s
   \<and> sentControl (audioWs_onclose s) = sentControl s"
  by (simp add: audioWs_onclose_def scheduleReconnect_def setTimeout_def clearTimeout_def
        ws_log_def ws_toast_def Let_def split: option.splits)

lemma step_keeps_control_closed:
  assumes "controlWsRef s = None"
  shows "controlWsRef (step e s) = None \<and> sentControl (step e s) = sentControl s"
proof (cases e)
  case (SocketOpens c i)
  with assms show ?thesis
    by (cases c)
       (simp_all add: audioWs_onopen_def controlWs_onopen_def ws_log_def browser_ready_def
          set_ready_def)
next
  case (SocketCloses c i)
  with assms show ?thesis
    by (cases c)
       (simp_all add: audioWs_onclose_keeps_control controlWs_onclose_def ws_log_def
          browser_ready_def set_ready_def)
next
  case (SocketErrors c)
  with assms show ?thesis
    by (cases c) (simp_all add: audioWs_onerror_def controlWs_onerror_def ws_log_def ws_toast_def)
next
  case (SocketMessage c f)
  with assms show ?thesis
    by (cases c) (simp_all add: audioWs_onmessage_keeps_control controlWs_onmessage_keeps_control)
next
  case (TimerFires t ok)
  with assms show ?thesis
    by (simp add: reconnectCallback_def connectAudioWebSocket_def clearTimeout_def
          ws_log_def ws_toast_def)
next
  case PingTick
  with assms show ?thesis by (simp add: pingIntervalTick_def ping_def)
next
  case (Call c)
  with assms show ?thesis by (simp add: call_keeps_control_closed)
qed

lemma run_keeps_control_closed:
  "controlWsRef s = None \<Longrightarrow>
     controlWsRef (run es s) = None \<and> sentControl (run es s) = sentControl s"
proof (induction es arbitrary: s)
  case Nil
  then show ?case by (simp add: run_def)
next
  case (Cons e es)
  from step_keeps_control_closed [OF Cons.prems, of e] Cons.IH [of "step e s"]
  show ?case by (simp add: run_Cons)
qed

text \<open>
  Claim C2: on each of the two channels, a close while the attempt count is below the cap
  makes the channel recover through its own reconnection state machine (a reconnect is
  scheduled, nothing is thrown), and a failure on one channel leaves the other channel's
  connection state and retry count alone. The audio socket does recover: after it opened
  and closed, one timer of 1000 milliseconds is pending, and when that timer fires a new
  audio socket is connecting. The control socket's close handler leaves the reconnect
  out: after the control socket opened and closed, with the attempt count at 0, no timer
  is pending and \<open>setTimeout\<close> was never called; and whatever events follow, the control
  reference stays empty and nothing is sent on the control socket.
\<close>

theorem control_close_never_reconnects:
  "socket_open (controlWsRef control_connected)
   \<and> reconnectAttempts control_connected < maxReconnectAttempts
   \<and> pendingTimers (step (SocketCloses Control 1) control_connected) = []
   \<and> setTimeoutCalls (step (SocketCloses Control 1) control_connected) = []
   \<and> isConnected_ws (step (SocketCloses Control 1) control_connected) = False
   \<and> controlWsRef (run es (step (SocketCloses Control 1) control_connected)) = None
   \<and> sentControl (run es (step (SocketCloses Control 1) control_connected)) = []
   \<and> pendingTimers (step (SocketCloses Audio 0) audio_connected) = [(1, 1000)]
   \<and> audioWsRef (step (TimerFires 1 True) (step (SocketCloses Audio 0) audio_connected))
       = Some \<lparr>sock_id = 2, url = ''ws://localhost:8000/ws/audio-stream'',
               readyState = CONNECTING\<rparr>"
proof -
  have closed: "controlWsRef (step (SocketCloses Control 1) control_connected) = None
      \<and> sentControl (step (SocketCloses Control 1) control_connected) = []"
    by (simp add: control_connected_def provider_mounted_def mount_def ws_initial_def
        connectAudioWebSocket_def connectControlWebSocket_def controlWs_onopen_def
        controlWs_onclose_def browser_ready_def set_ready_def ws_log_def)
  have here: "socket_open (controlWsRef control_connected)
      \<and> reconnectAttempts control_connected < maxReconnectAttempts
      \<and> pendingTimers (step (SocketCloses Control 1) control_connected) = []
      \<and> setTimeoutCalls (step (SocketCloses Control 1) control_connected) = []
      \<and> isConnected_ws (step (SocketCloses Control 1) control_connected) = False"
    by (simp add: control_connected_def provider_mounted_def mount_def ws_initial_def
        connectAudioWebSocket_def connectControlWebSocket_def controlWs_onopen_def
        controlWs_onclose_def browser_ready_def set_ready_def ws_log_def socket_open_def
        maxReconnectAttempts_def)
  have sibling: "pendingTimers (step (SocketCloses Audio 0) audio_connected) = [(1, 1000)]
      \<and> audioWsRef (step (TimerFires 1 True) (step (SocketCloses Audio 0) audio_connected))
          = Some \<lparr>sock_id = 2, url = ''ws://localhost:8000/ws/audio-stream'',
                  readyState = CONNECTING\<rparr>"
    by (simp add: audio_connected_def provider_mounted_def mount_def ws_initial_def
        connectAudioWebSocket_def connectControlWebSocket_def audioWs_onopen_def
        audioWs_onclose_def scheduleReconnect_def setTimeout_def clearTimeout_def
        reconnectCallback_def reconnectDelay_def maxReconnectAttempts_def
        browser_ready_def set_ready_def ws_log_def Let_def)
  from run_keeps_control_closed [of "step (SocketCloses Control 1) control_connected" es]
       closed here sibling
  show ?thesis by (simp only: simp_thms)
qed

section \<open>Properties of the outbound commands\<close>

lemma is_json_json_of: "is_json v \<Longrightarrow> json_of v = Some v"
proof (induction v)
  case (JArr xs)
  then have "\<forall>x \<in> set xs. json_of x = Some x"
    by (auto simp: list_all_iff)
  then have "map (\<lambda>j. case j of None \<Rightarrow> JNull | Some v \<Rightarrow> v) (map json_of xs) = xs"
    by (induction xs) auto
  then show ?case by simp
next
  case (JObj kvs)
  then have "\<forall>(k, v) \<in> set kvs. json_of v = Some v"
    by (fastforce simp: list_all_iff)
  then have "concat (map (\<lambda>(k, j). case j of None \<Rightarrow> [] | Some v \<Rightarrow> [(k, v)])
                             (map (map_prod id json_of) kvs)) = kvs"
    by (induction kvs) auto
  then show ?case by simp
qed simp_all

text \<open>
  Claim C7 (as stated): with the control socket open, \<open>enableEQ profile\<close> sends exactly one
  message whose \<open>eq_profile\<close> is the profile after range validation. No validation takes
  place: with the control socket open and nothing sent so far, a profile with a gain of
  100 decibels, outside the nominal range, is sent as it is.
\<close>

theorem enable_eq_unvalidated_counterexample:
  "socket_open (controlWsRef control_connected)
   \<and> sentControl control_connected = []
   \<and> sentControl (enableEQ (JObj [(''name'', JStr ''EQ_2024-01-01''), (''gains'', JArr [JNum 100])])
        control_connected)
     = [Json (JObj [(''type'', JStr ''enable_eq''),
                    (''eq_profile'', JObj [(''name'', JStr ''EQ_2024-01-01''),
                                           (''gains'', JArr [JNum 100])])])]
   \<and> \<not> spec_profile_in_range (JObj [(''name'', JStr ''EQ_2024-01-01''), (''gains'', JArr [JNum 100])])"
  by (simp add: control_connected_def provider_mounted_def mount_def ws_initial_def
        connectAudioWebSocket_def connectControlWebSocket_def controlWs_onopen_def
        browser_ready_def set_ready_def ws_log_def socket_open_def
        enableEQ_def sendControlCommand_def stringified_def
        spec_profile_in_range_def spec_gain_in_range_def obj_get_def)

text \<open>
  Claim C7 (amended): for every profile, with the control socket open, \<open>enableEQ profile\<close>
  sends exactly one message on the control socket and changes nothing else; the message is
  the JSON text of an object whose \<open>type\<close> is \<open>enable_eq\<close> and whose \<open>eq_profile\<close> is the
  JSON form of the profile exactly as supplied, without range validation. For a profile
  with no \<open>undefined\<close> and no non-finite number inside, that form is the profile
  itself; for the profile \<open>undefined\<close> the message has no \<open>eq_profile\<close>.
\<close>

theorem enable_eq_sends_profile_as_given:
  assumes "socket_open (controlWsRef s)"
  shows "enableEQ p s
       = s\<lparr>sentControl := sentControl s
            @ [Json (JObj ((''type'', JStr ''enable_eq'')
                           # (case json_of p of None \<Rightarrow> [] | Some j \<Rightarrow> [(''eq_profile'', j)])))]\<rparr>
     \<and> obj_get ((''type'', JStr ''enable_eq'')
                 # (case json_of p of None \<Rightarrow> [] | Some j \<Rightarrow> [(''eq_profile'', j)])) ''type''
         = Some (JStr ''enable_eq'')
     \<and> obj_get ((''type'', JStr ''enable_eq'')
                 # (case json_of p of None \<Rightarrow> [] | Some j \<Rightarrow> [(''eq_profile'', j)])) ''eq_profile''
         = json_of p
     \<and> (is_json p \<longrightarrow> json_of p = Some p)"
  using assms
  by (auto simp: enableEQ_def sendControlCommand_def stringified_def obj_get_def is_json_json_of
        split: option.splits)

theorem enable_eq_witness:
  "socket_open (controlWsRef control_connected)
   \<and> is_json (JObj [(''gains'', JArr [JNum 3, JNum (-2)])])
   \<and> sentControl (enableEQ (JObj [(''gains'', JArr [JNum 3, JNum (-2)])]) control_connected)
       = [Json (JObj [(''type'', JStr ''enable_eq''),
                      (''eq_profile'', JObj [(''gains'', JArr [JNum 3, JNum (-2)])])])]"
proof -
  have h: "socket_open (controlWsRef control_connected)"
    by (simp add: control_connected_def provider_mounted_def mount_def ws_initial_def
        connectAudioWebSocket_def connectControlWebSocket_def controlWs_onopen_def
        browser_ready_def set_ready_def ws_log_def socket_open_def)
  have e: "sentControl control_connected = []"
    by (simp add: control_connected_def provider_mounted_def mount_def ws_initial_def
        connectAudioWebSocket_def connectControlWebSocket_def controlWs_onopen_def
        browser_ready_def set_ready_def ws_log_def)
  from enable_eq_sends_profile_as_given [OF h, of "JObj [(''gains'', JArr [JNum 3, JNum (-2)])]"] h e
  show ?thesis by simp
qed

text \<open>
  Claim C10: when the audio socket reference is empty or its socket is not in the
  \<open>OPEN\<close> state, each of \<open>ping\<close>, \<open>getStatus\<close>, \<open>toggleAnalysis\<close> and \<open>clearBuffer\<close>
  leaves the whole state as it is: nothing is sent, nothing is logged, nothing is thrown.
  A control command sent while the control socket is not open sends nothing either, but
  writes one console warning.
\<close>

theorem telemetry_commands_silent_when_not_open:
  "(\<not> socket_open (audioWsRef s) \<longrightarrow>
      ping s = s \<and> getStatus s = s \<and> toggleAnalysis s = s \<and> clearBuffer s = s)
   \<and> (\<not> socket_open (controlWsRef s) \<longrightarrow>
      sendControlCommand c s
        = s\<lparr>ws_console := ws_console s @ [ConsoleWarn ''Control WebSocket not connected'']\<rparr>)
   \<and> (socket_open (audioWsRef s)
        \<longleftrightarrow> (\<exists>ws. audioWsRef s = Some ws \<and> readyState ws = OPEN))"
  by (auto simp: ping_def getStatus_def toggleAnalysis_def clearBuffer_def
        sendControlCommand_def ws_log_def socket_open_def split: option.splits)

theorem telemetry_commands_silent_witness:
  "\<not> socket_open (audioWsRef provider_mounted)
   \<and> \<not> socket_open (controlWsRef provider_mounted)
   \<and> \<not> socket_open (audioWsRef ws_initial)
   \<and> ping provider_mounted = provider_mounted
   \<and> clearBuffer ws_initial = ws_initial
   \<and> ws_console (sendControlCommand (JObj [(''type'', JStr ''disable_eq'')]) provider_mounted)
       = [ConsoleWarn ''Control WebSocket not connected'']
   \<and> sentControl (sendControlCommand (JObj [(''type'', JStr ''disable_eq'')]) provider_mounted) = []"
proof -
  have h: "\<not> socket_open (audioWsRef provider_mounted)
      \<and> \<not> socket_open (controlWsRef provider_mounted)
      \<and> \<not> socket_open (audioWsRef ws_initial)
      \<and> ws_console provider_mounted = [] \<and> sentControl provider_mounted = []"
    by (simp add: provider_mounted_def mount_def ws_initial_def
        connectAudioWebSocket_def connectControlWebSocket_def socket_open_def)
  from telemetry_commands_silent_when_not_open [of provider_mounted "JObj [(''type'', JStr ''disable_eq'')]"]
       telemetry_commands_silent_when_not_open [of ws_initial JNull] h
  show ?thesis by simp
qed

section \<open>Properties of the heartbeat\<close>

text \<open>
  Claim C9 (as stated): while the telemetry socket is connected, a ping goes out on it at
  every tick of the 30-second interval. The tick tests the provider's \<open>isConnected\<close>, which
  the control socket sets: with the audio socket open and the control socket still
  connecting, two ticks send nothing.
\<close>

theorem ping_gated_by_control_counterexample:
  "socket_open (audioWsRef audio_connected)
   \<and> connectionStatus audio_connected = ''connected''
   \<and> sentAudio (step PingTick audio_connected) = sentAudio audio_connected
   \<and> sentAudio (step PingTick (step PingTick audio_connected)) = []"
  by (simp add: audio_connected_def provider_mounted_def mount_def ws_initial_def
        connectAudioWebSocket_def connectControlWebSocket_def audioWs_onopen_def
        browser_ready_def set_ready_def ws_log_def socket_open_def pingIntervalTick_def)

text \<open>
  Claim C9 (amended): the interval is 30000 milliseconds, and a tick sends exactly one
  \<open>ping\<close> on the audio socket when the provider's \<open>isConnected\<close> (set by the control
  socket) holds and the audio socket is open, and does nothing otherwise. A tick and
  \<open>ping\<close> never change the reconnect attempt count, the timer reference or the timers
  scheduled.
\<close>

theorem ping_tick_effect:
  "pingIntervalTick s
     = (if isConnected_ws s \<and> socket_open (audioWsRef s)
        then s\<lparr>sentAudio := sentAudio s @ [Text ''ping'']\<rparr>
        else s)
   \<and> reconnectAttempts (pingIntervalTick s) = reconnectAttempts s
   \<and> reconnectTimeoutRef (pingIntervalTick s) = reconnectTimeoutRef s
   \<and> pendingTimers (pingIntervalTick s) = pendingTimers s
   \<and> setTimeoutCalls (pingIntervalTick s) = setTimeoutCalls s
   \<and> reconnectAttempts (ping s) = reconnectAttempts s
   \<and> pingIntervalMs = 30000"
  by (simp add: pingIntervalTick_def ping_def pingIntervalMs_def)

end
